theory Spec2Isabelle
  imports Complex_Main
begin

section \<open>JavaScript numbers\<close>

text \<open>
  The estimator of \<^verbatim>\<open>src/App.js\<close> (the third, most complete variant, lines 571 ff.)
  computes on JavaScript Numbers. A Number is modelled as a finite real, one of the two
  infinities, or NaN. Finite arithmetic is exact: rounding to the nearest double and
  overflow of a finite result to an infinity are not part of the model, and the two zeros
  are one value (the code never divides by a Number it computed, so the sign of a zero
  is never observed). The special values follow ECMAScript: NaN is absorbing, opposite
  infinities cancel to NaN, zero times an infinity is NaN, and every comparison with NaN
  is false.
\<close>

datatype number = Num real | PosInf | NegInf | NaN

fun isFinite :: "number \<Rightarrow> bool" where
  "isFinite (Num r) = True"
| "isFinite _ = False"

instantiation number :: "{uminus, plus, minus, times}"
begin

fun uminus_number :: "number \<Rightarrow> number" where
  "uminus_number (Num a) = Num (- a)"
| "uminus_number PosInf = NegInf"
| "uminus_number NegInf = PosInf"
| "uminus_number NaN = NaN"

fun plus_number :: "number \<Rightarrow> number \<Rightarrow> number" where
  "plus_number (Num a) (Num b) = Num (a + b)"
| "plus_number NaN _ = NaN"
| "plus_number _ NaN = NaN"
| "plus_number PosInf NegInf = NaN"
| "plus_number NegInf PosInf = NaN"
| "plus_number PosInf _ = PosInf"
| "plus_number _ PosInf = PosInf"
| "plus_number NegInf _ = NegInf"
| "plus_number _ NegInf = NegInf"

definition minus_number :: "number \<Rightarrow> number \<Rightarrow> number" where
  "minus_number a b = a + (- b)"

fun times_number :: "number \<Rightarrow> number \<Rightarrow> number" where
  "times_number (Num a) (Num b) = Num (a * b)"
| "times_number NaN _ = NaN"
| "times_number _ NaN = NaN"
| "times_number (Num a) PosInf = (if a = 0 then NaN else if 0 < a then PosInf else NegInf)"
| "times_number (Num a) NegInf = (if a = 0 then NaN else if 0 < a then NegInf else PosInf)"
| "times_number PosInf (Num b) = (if b = 0 then NaN else if 0 < b then PosInf else NegInf)"
| "times_number NegInf (Num b) = (if b = 0 then NaN else if 0 < b then NegInf else PosInf)"
| "times_number PosInf PosInf = PosInf"
| "times_number PosInf NegInf = NegInf"
| "times_number NegInf PosInf = NegInf"
| "times_number NegInf NegInf = PosInf"

instance ..

end

text \<open>The relational operators \<^verbatim>\<open>a > b\<close> and \<^verbatim>\<open>a < b\<close>.\<close>

fun js_gt :: "number \<Rightarrow> number \<Rightarrow> bool" where
  "js_gt (Num a) (Num b) = (b < a)"
| "js_gt NaN _ = False"
| "js_gt _ NaN = False"
| "js_gt _ PosInf = False"
| "js_gt PosInf _ = True"
| "js_gt NegInf _ = False"
| "js_gt _ NegInf = True"

definition js_lt :: "number \<Rightarrow> number \<Rightarrow> bool" where
  "js_lt a b = js_gt b a"

text \<open>\<^verbatim>\<open>a || b\<close> on Numbers: the falsy Numbers are zero and NaN.\<close>

definition js_or :: "number \<Rightarrow> number \<Rightarrow> number" where
  "js_or a b = (if a = NaN \<or> a = Num 0 then b else a)"

definition Math_PI :: number where
  "Math_PI = Num pi"

fun Math_cos :: "number \<Rightarrow> number" where
  "Math_cos (Num r) = Num (cos r)"
| "Math_cos _ = NaN"

fun Math_sin :: "number \<Rightarrow> number" where
  "Math_sin (Num r) = Num (sin r)"
| "Math_sin _ = NaN"

text \<open>\<^verbatim>\<open>Math.hypot\<close>: an infinite argument wins over a NaN one.\<close>

fun Math_hypot :: "number \<Rightarrow> number \<Rightarrow> number" where
  "Math_hypot (Num a) (Num b) = Num (sqrt (a * a + b * b))"
| "Math_hypot PosInf _ = PosInf"
| "Math_hypot NegInf _ = PosInf"
| "Math_hypot _ PosInf = PosInf"
| "Math_hypot _ NegInf = PosInf"
| "Math_hypot NaN _ = NaN"
| "Math_hypot _ NaN = NaN"

section \<open>The session state\<close>

text \<open>
  A sensor sample \<^verbatim>\<open>{x, y, z}\<close>, a velocity \<^verbatim>\<open>{vx, vy}\<close> and a position or path point
  \<^verbatim>\<open>{x, y}\<close>. The component's \<^verbatim>\<open>useState\<close> cells and \<^verbatim>\<open>useRef\<close> cells (lines 585-608)
  are the fields of one record; a state setter is an assignment to its field, and every
  callback runs to completion before the next one starts.
\<close>

datatype vec3 = Vec3 (vec_x: number) (vec_y: number) (vec_z: number)

type_synonym velocity = "number \<times> number"

type_synonym point = "number \<times> number"

record session =
  accel :: vec3
  gyro :: vec3
  isTracking :: bool
  path :: "point list"
  totalDistance :: number
  totalDistanceRef :: number
  bias :: vec3
  biasRef :: vec3
  velocityRef :: velocity
  positionRef :: point
  lastTimeRef :: "int option"
  gyroRef :: vec3
  headingRef :: number

definition origin :: point where
  "origin = (Num 0, Num 0)"

definition zero3 :: vec3 where
  "zero3 = Vec3 (Num 0) (Num 0) (Num 0)"

text \<open>The initial values of the cells, lines 586-608.\<close>

definition initialState :: session where
  "initialState =
     \<lparr> accel = zero3, gyro = zero3, isTracking = False, path = [origin],
       totalDistance = Num 0, totalDistanceRef = Num 0, bias = zero3, biasRef = zero3,
       velocityRef = (Num 0, Num 0), positionRef = origin, lastTimeRef = None,
       gyroRef = zero3, headingRef = Num 0 \<rparr>"

section \<open>The integration step\<close>

text \<open>
  Lines 647-648: the heading is brought back by one turn when it left the range.
\<close>

definition wrapHeading :: "number \<Rightarrow> number" where
  "wrapHeading h0 =
     (let h1 = (if js_gt h0 Math_PI then h0 - Num 2 * Math_PI else h0)
      in if js_lt h1 (- Math_PI) then h1 + Num 2 * Math_PI else h1)"

text \<open>
  Lines 683-697, the updater given to \<^verbatim>\<open>setPath\<close>, applied to the current path:
  \<^verbatim>\<open>prev[prev.length - 1] || { x: 0, y: 0 }\<close> is the last point, or the origin for an
  empty path.
\<close>

definition lastPoint :: "point list \<Rightarrow> point" where
  "lastPoint prev = (if prev = [] then origin else last prev)"

definition appendIfMoved :: "session \<Rightarrow> number \<Rightarrow> number \<Rightarrow> session" where
  "appendIfMoved s x y =
     (let prev = path s;
          lst = lastPoint prev;
          dx = x - fst lst;
          dy = y - snd lst;
          dist = Math_hypot dx dy
      in if js_gt dist (Num 0.005)
         then s\<lparr> totalDistanceRef := totalDistanceRef s + dist,
                 totalDistance := totalDistanceRef s + dist,
                 path := prev @ [(x, y)] \<rparr>
         else s)"

text \<open>
  Lines 633-698. \<^verbatim>\<open>Date.now()\<close> is the argument \<open>now\<close>, in integer milliseconds.
\<close>

definition updateDeadReckoning :: "session \<Rightarrow> vec3 \<Rightarrow> int \<Rightarrow> session" where
  "updateDeadReckoning s accelData now =
     (case lastTimeRef s of
        None \<Rightarrow> s\<lparr> lastTimeRef := Some now \<rparr>
      | Some lastTime \<Rightarrow>
          let dt = real_of_int (now - lastTime) / 1000 in
          if dt \<le> 0 then s
          else
            let yawRate = js_or (vec_z (gyroRef s)) (Num 0);
                heading = wrapHeading (headingRef s + yawRate * Num dt);
                axBody = vec_x accelData - vec_x (biasRef s);
                ayBody = vec_y accelData - vec_y (biasRef s);
                cosH = Math_cos heading;
                sinH = Math_sin heading;
                axWorld = axBody * cosH - ayBody * sinH;
                ayWorld = axBody * sinH + ayBody * cosH;
                damping = Num 0.98;
                vx = (fst (velocityRef s) + axWorld * Num dt) * damping;
                vy = (snd (velocityRef s) + ayWorld * Num dt) * damping;
                x = fst (positionRef s) + vx * Num dt;
                y = snd (positionRef s) + vy * Num dt
            in appendIfMoved
                 (s\<lparr> lastTimeRef := Some now, headingRef := heading,
                     velocityRef := (vx, vy), positionRef := (x, y) \<rparr>) x y)"

section \<open>Listeners and commands\<close>

text \<open>Lines 614-619 and 621-624: the two sensor listeners.\<close>

definition on_accel :: "session \<Rightarrow> vec3 \<Rightarrow> int \<Rightarrow> session" where
  "on_accel s data now =
     (let s1 = s\<lparr> accel := data \<rparr>
      in if isTracking s1 then updateDeadReckoning s1 data now else s1)"

definition on_gyro :: "session \<Rightarrow> vec3 \<Rightarrow> session" where
  "on_gyro s data = s\<lparr> gyro := data, gyroRef := data \<rparr>"

text \<open>Lines 700-731: the commands behind the four buttons.\<close>

definition resetState :: "session \<Rightarrow> session" where
  "resetState s =
     s\<lparr> velocityRef := (Num 0, Num 0), positionRef := (Num 0, Num 0), lastTimeRef := None,
        headingRef := Num 0, totalDistanceRef := Num 0, totalDistance := Num 0,
        path := [(Num 0, Num 0)] \<rparr>"

definition handleStart :: "session \<Rightarrow> session" where
  "handleStart s = (resetState s)\<lparr> isTracking := True \<rparr>"

definition handleStop :: "session \<Rightarrow> session" where
  "handleStop s = s\<lparr> isTracking := False, lastTimeRef := None \<rparr>"

definition handleReset :: "session \<Rightarrow> session" where
  "handleReset s = resetState (s\<lparr> isTracking := False \<rparr>)"

definition handleCalibrate :: "session \<Rightarrow> session" where
  "handleCalibrate s = handleReset (s\<lparr> biasRef := accel s, bias := accel s \<rparr>)"

text \<open>
  What can happen to a session: a sensor callback or a button. A run is a sequence of
  them, each processed to completion.
\<close>

datatype event = Accel vec3 int | Gyro vec3 | Start | Stop | Reset | Calibrate

fun apply_event :: "session \<Rightarrow> event \<Rightarrow> session" where
  "apply_event s (Accel data now) = on_accel s data now"
| "apply_event s (Gyro data) = on_gyro s data"
| "apply_event s Start = handleStart s"
| "apply_event s Stop = handleStop s"
| "apply_event s Reset = handleReset s"
| "apply_event s Calibrate = handleCalibrate s"

fun run :: "session \<Rightarrow> event list \<Rightarrow> session" where
  "run s [] = s"
| "run s (e # es) = run (apply_event s e) es"

section \<open>Concrete sessions\<close>

text \<open>
  A sample with body-frame acceleration \<open>(1, 0)\<close>, and the session after Start and a first
  sample at 1000 ms: tracking, with the time of the last sample known.
\<close>

definition push :: vec3 where
  "push = Vec3 (Num 1) (Num 0) (Num 0)"

definition armed :: session where
  "armed = run initialState [Start, Accel push 1000]"

text \<open>The session \<open>armed\<close> after a gyroscope sample with yaw rate \<open>z\<close>.\<close>

definition spinning :: "number \<Rightarrow> session" where
  "spinning z = on_gyro armed (Vec3 (Num 0) (Num 0) z)"

text \<open>
  A run that turns by minus a half turn in one step: yaw rate \<open>-\<pi>\<close> rad/s over one
  second.
\<close>

definition halfTurn :: "event list" where
  "halfTurn =
     [Start, Gyro (Vec3 (Num 0) (Num 0) (Num (- pi))), Accel zero3 1000, Accel zero3 2000]"

text \<open>
  \<open>samples a t n\<close> are \<open>n\<close> accelerometer samples \<open>a\<close>, 50 ms apart, the first at time
  \<open>t\<close>. In \<open>scenarioB t0 k\<close> the session is started and receives \<open>k + 1\<close> samples of
  acceleration \<open>(1, 0)\<close>: the first one sets the time of the last sample, each of the
  \<open>k\<close> following ones is an integration step with \<open>dt = 0.05\<close>. Bias and yaw rate are
  zero, as in the initial session.
\<close>

fun samples :: "vec3 \<Rightarrow> int \<Rightarrow> nat \<Rightarrow> event list" where
  "samples a t 0 = []"
| "samples a t (Suc n) = Accel a t # samples a (t + 50) n"

definition scenarioB :: "int \<Rightarrow> nat \<Rightarrow> session" where
  "scenarioB t0 k = run initialState (Start # samples push t0 (Suc k))"

section \<open>Notions of the specification\<close>

text \<open>
  The range of the heading: the interval \<open>(-\<pi>, \<pi>]\<close> of the specification, and the
  closed interval \<open>[-\<pi>, \<pi>]\<close> named in the comment of line 646.
\<close>

definition headingHalfOpen :: "number \<Rightarrow> bool" where
  "headingHalfOpen h = (case h of Num r \<Rightarrow> - pi < r \<and> r \<le> pi | _ \<Rightarrow> False)"

definition headingClosed :: "number \<Rightarrow> bool" where
  "headingClosed h = (case h of Num r \<Rightarrow> - pi \<le> r \<and> r \<le> pi | _ \<Rightarrow> False)"

text \<open>
  The precondition of the heading integrator: an event that integrates (an accelerometer
  sample while tracking, with the time of the last sample known and \<open>dt > 0\<close>) changes the
  heading by a finite amount of at most one full turn. Other events are not constrained.
  \<open>allOneWrap s es\<close> asks this of each event of the run \<open>es\<close>, in the session it meets.
\<close>

fun oneWrap :: "session \<Rightarrow> event \<Rightarrow> bool" where
  "oneWrap s (Accel data now) =
     (case lastTimeRef s of
        None \<Rightarrow> True
      | Some lastTime \<Rightarrow>
          isTracking s \<and> 0 < real_of_int (now - lastTime) / 1000 \<longrightarrow>
          (case js_or (vec_z (gyroRef s)) (Num 0) * Num (real_of_int (now - lastTime) / 1000) of
             Num d \<Rightarrow> \<bar>d\<bar> \<le> 2 * pi
           | _ \<Rightarrow> False))"
| "oneWrap s _ = True"

fun allOneWrap :: "session \<Rightarrow> event list \<Rightarrow> bool" where
  "allOneWrap s [] = True"
| "allOneWrap s (e # es) = (oneWrap s e \<and> allOneWrap (apply_event s e) es)"

text \<open>
  The undamped solution that scenario B compares with: velocity and position after \<open>n\<close>
  steps of the integrator's recurrence with acceleration 1, \<open>dt = 0.05\<close> and damping
  factor 1. \<open>damped\<close> is the same recurrence with the factor 0.98 of line 668.
\<close>

fun undamped :: "nat \<Rightarrow> real \<times> real" where
  "undamped 0 = (0, 0)"
| "undamped (Suc n) =
     (let v = (fst (undamped n) + 1 * 0.05) * 1 in (v, snd (undamped n) + v * 0.05))"

fun damped :: "nat \<Rightarrow> real \<times> real" where
  "damped 0 = (0, 0)"
| "damped (Suc n) =
     (let v = (fst (damped n) + 1 * 0.05) * 0.98 in (v, snd (damped n) + v * 0.05))"

text \<open>
  A session in straight motion along the x axis: tracking, last sample at time \<open>t\<close>,
  heading zero, velocity \<open>(v, 0)\<close>, position \<open>(x, 0)\<close>, no bias on x and y, yaw rate zero.
\<close>

definition cruising :: "int \<Rightarrow> real \<Rightarrow> real \<Rightarrow> session \<Rightarrow> bool" where
  "cruising t v x s \<longleftrightarrow>
     isTracking s \<and> lastTimeRef s = Some t \<and> headingRef s = Num 0 \<and>
     velocityRef s = (Num v, Num 0) \<and> positionRef s = (Num x, Num 0) \<and>
     vec_x (biasRef s) = Num 0 \<and> vec_y (biasRef s) = Num 0 \<and> vec_z (gyroRef s) = Num 0"

section \<open>Auxiliary facts\<close>

lemma appendIfMoved_frame:
  "lastTimeRef (appendIfMoved s x y) = lastTimeRef s"
  "headingRef (appendIfMoved s x y) = headingRef s"
  "velocityRef (appendIfMoved s x y) = velocityRef s"
  "positionRef (appendIfMoved s x y) = positionRef s"
  "isTracking (appendIfMoved s x y) = isTracking s"
  "biasRef (appendIfMoved s x y) = biasRef s"
  "gyroRef (appendIfMoved s x y) = gyroRef s"
  by (simp_all add: appendIfMoved_def Let_def)

lemma armed_eq:
  "armed = initialState\<lparr> accel := push, isTracking := True, lastTimeRef := Some 1000 \<rparr>"
  by (simp add: armed_def initialState_def handleStart_def resetState_def on_accel_def
      updateDeadReckoning_def origin_def)

lemma hypot_axis: "0 \<le> a \<Longrightarrow> Math_hypot (Num a) (Num 0) = Num a"
  by simp

lemma wrapHeading_zero: "wrapHeading (Num 0) = Num 0"
  by (simp add: wrapHeading_def Math_PI_def js_lt_def)

lemmas eval_defs =
  initialState_def handleStart_def handleStop_def handleReset_def handleCalibrate_def
  resetState_def on_accel_def on_gyro_def updateDeadReckoning_def appendIfMoved_def
  lastPoint_def origin_def zero3_def push_def minus_number_def js_or_def Let_def

lemma path_step:
  "path (apply_event s e) = [origin] \<or> (\<exists>sfx. path (apply_event s e) = path s @ sfx)"
  by (cases e)
     (auto simp: on_accel_def on_gyro_def updateDeadReckoning_def appendIfMoved_def Let_def
        handleStart_def handleStop_def handleReset_def handleCalibrate_def resetState_def
        origin_def split: option.splits)

lemma origin_first_step:
  assumes "path s \<noteq> [] \<and> hd (path s) = origin"
  shows "path (apply_event s e) \<noteq> [] \<and> hd (path (apply_event s e)) = origin"
  using assms path_step [of s e] by auto

lemma origin_first_run:
  "path s \<noteq> [] \<and> hd (path s) = origin \<Longrightarrow>
   path (run s es) \<noteq> [] \<and> hd (path (run s es)) = origin"
proof (induction es arbitrary: s)
  case Nil
  then show ?case by simp
next
  case (Cons e es)
  from Cons.prems
  have "path (apply_event s e) \<noteq> [] \<and> hd (path (apply_event s e)) = origin"
    by (rule origin_first_step)
  then show ?case using Cons.IH by simp
qed

lemma wrapHeading_minus_pi: "wrapHeading (Num (- pi)) = Num (- pi)"
  by (simp add: wrapHeading_def Math_PI_def js_lt_def)

lemma spinning_eq:
  "spinning z = initialState\<lparr> accel := push, isTracking := True, lastTimeRef := Some 1000,
                   gyro := Vec3 (Num 0) (Num 0) z, gyroRef := Vec3 (Num 0) (Num 0) z \<rparr>"
  by (simp add: spinning_def armed_eq on_gyro_def initialState_def)

subsection \<open>Non-finite numbers are absorbing\<close>

lemma nonfinite_plus: "\<not> isFinite a \<or> \<not> isFinite b \<Longrightarrow> \<not> isFinite (a + b)"
  by (cases a; cases b) simp_all

lemma nonfinite_minus: "\<not> isFinite a \<or> \<not> isFinite b \<Longrightarrow> \<not> isFinite (a - b)"
  by (cases a; cases b) (simp_all add: minus_number_def)

lemma nonfinite_times: "\<not> isFinite a \<or> \<not> isFinite b \<Longrightarrow> \<not> isFinite (a * b)"
  by (cases a; cases b) simp_all

lemma nonfinite_cos: "\<not> isFinite a \<Longrightarrow> Math_cos a = NaN"
  by (cases a) simp_all

lemma nonfinite_sin: "\<not> isFinite a \<Longrightarrow> Math_sin a = NaN"
  by (cases a) simp_all

lemma nonfinite_wrapHeading: "\<not> isFinite h \<Longrightarrow> \<not> isFinite (wrapHeading h)"
  by (simp add: wrapHeading_def Let_def nonfinite_plus nonfinite_minus)

lemma NaN_times [simp]: "NaN * a = NaN" "a * NaN = NaN"
  by (cases a; simp)+

lemma NaN_plus [simp]: "NaN + a = NaN" "a + NaN = NaN"
  by (cases a; simp)+

lemma NaN_minus [simp]: "NaN - a = NaN" "a - NaN = NaN"
  by (cases a; simp add: minus_number_def)+

subsection \<open>One wrap keeps the heading in the closed range\<close>

lemma wrapHeading_closed:
  assumes "- 3 * pi \<le> r" and "r \<le> 3 * pi"
  shows "headingClosed (wrapHeading (Num r))"
  using assms
  by (auto simp: wrapHeading_def Math_PI_def js_lt_def minus_number_def headingClosed_def
      Let_def)

lemma headingClosed_zero: "headingClosed (Num 0)"
  by (simp add: headingClosed_def)

lemma heading_step:
  assumes "headingClosed (headingRef s)" and "oneWrap s e"
  shows "headingClosed (headingRef (apply_event s e))"
proof (cases e)
  case (Accel data now)
  show ?thesis
  proof (cases "lastTimeRef s")
    case None
    then show ?thesis using assms Accel
      by (simp add: on_accel_def updateDeadReckoning_def Let_def)
  next
    case (Some lastTime)
    let ?dt = "real_of_int (now - lastTime) / 1000"
    show ?thesis
    proof (cases "isTracking s \<and> 0 < ?dt")
      case False
      then show ?thesis using assms Accel Some
        by (auto simp: on_accel_def updateDeadReckoning_def Let_def)
    next
      case True
      from assms(1) obtain h where h: "headingRef s = Num h" "- pi \<le> h" "h \<le> pi"
        by (auto simp: headingClosed_def split: number.splits)
      from assms(2) Accel Some True
      obtain d where d: "js_or (vec_z (gyroRef s)) (Num 0) * Num ?dt = Num d" "\<bar>d\<bar> \<le> 2 * pi"
        by (auto split: number.splits)
      have "headingRef (apply_event s e) = wrapHeading (Num (h + d))"
        using Accel Some True h d
        by (simp add: on_accel_def updateDeadReckoning_def Let_def appendIfMoved_frame)
      moreover have "headingClosed (wrapHeading (Num (h + d)))"
        using h d by (intro wrapHeading_closed) (auto simp: abs_le_iff)
      ultimately show ?thesis by simp
    qed
  qed
qed (use assms in \<open>simp_all add: on_gyro_def handleStart_def handleStop_def handleReset_def
        handleCalibrate_def resetState_def headingClosed_zero\<close>)

lemma halfTurn_heading: "headingRef (run initialState halfTurn) = Num (- pi)"
  by (simp add: halfTurn_def eval_defs wrapHeading_minus_pi)

lemma halfTurn_oneWrap: "allOneWrap initialState halfTurn"
  by (simp add: halfTurn_def eval_defs)

subsection \<open>Straight motion under constant acceleration\<close>

lemma run_snoc: "run s (es @ [e]) = apply_event (run s es) e"
  by (induction es arbitrary: s) simp_all

lemma samples_snoc: "samples a t (Suc n) = samples a t n @ [Accel a (t + 50 * int n)]"
proof (induction n arbitrary: t)
  case 0
  show ?case by simp
next
  case (Suc n)
  have "samples a t (Suc (Suc n)) = Accel a t # samples a (t + 50) (Suc n)" by simp
  also have "\<dots> = Accel a t # (samples a (t + 50) n @ [Accel a (t + 50 + 50 * int n)])"
    by (simp only: Suc.IH)
  finally show ?case by (simp add: algebra_simps)
qed

lemma cruise_step:
  assumes "cruising t v x s" and "t' = t + 50"
  shows "cruising t' ((v + 1 * 0.05) * 0.98) (x + (v + 1 * 0.05) * 0.98 * 0.05)
           (on_accel s push t')"
  using assms
  by (simp add: cruising_def on_accel_def updateDeadReckoning_def Let_def appendIfMoved_frame
      push_def js_or_def minus_number_def wrapHeading_zero)

lemma cruise_start: "cruising t0 0 0 (run initialState [Start, Accel push t0])"
  by (simp add: cruising_def initialState_def handleStart_def resetState_def on_accel_def
      updateDeadReckoning_def zero3_def)

lemma cruise_run:
  "cruising (t0 + 50 * int k) (fst (damped k)) (snd (damped k)) (scenarioB t0 k)"
proof (induction k)
  case 0
  show ?case using cruise_start [of t0] by (simp add: scenarioB_def)
next
  case (Suc k)
  have eq: "scenarioB t0 (Suc k) = on_accel (scenarioB t0 k) push (t0 + 50 * int (Suc k))"
    unfolding scenarioB_def
    by (subst samples_snoc) (simp only: append_Cons [symmetric] run_snoc apply_event.simps)
  have "cruising (t0 + 50 * int (Suc k)) ((fst (damped k) + 1 * 0.05) * 0.98)
          (snd (damped k) + (fst (damped k) + 1 * 0.05) * 0.98 * 0.05)
          (on_accel (scenarioB t0 k) push (t0 + 50 * int (Suc k)))"
    by (rule cruise_step [OF Suc.IH]) simp
  then show ?case
    by (simp only: eq damped.simps Let_def fst_conv snd_conv)
qed

lemma damping_arith:
  fixes vd vu xd xu :: real
  assumes "0 \<le> vd" and "vd \<le> vu" and "xd \<le> xu"
  shows "0 < (vd + 1 * 0.05) * 0.98"
    and "(vd + 1 * 0.05) * 0.98 < (vu + 1 * 0.05) * 1"
    and "xd + (vd + 1 * 0.05) * 0.98 * 0.05 < xu + (vu + 1 * 0.05) * 1 * 0.05"
  using assms by (simp_all add: field_simps)

lemma damped_below:
  "0 \<le> fst (damped k) \<and> fst (damped k) \<le> fst (undamped k) \<and>
   snd (damped k) \<le> snd (undamped k)"
proof (induction k)
  case 0
  show ?case by simp
next
  case (Suc k)
  then have v: "0 \<le> fst (damped k)" "fst (damped k) \<le> fst (undamped k)"
    "snd (damped k) \<le> snd (undamped k)"
    by simp_all
  show ?case
    using damping_arith [OF v]
    by (simp only: damped.simps undamped.simps Let_def fst_conv snd_conv) simp
qed

lemma damped_step:
  "snd (damped k) < snd (damped (Suc k)) \<and> snd (damped (Suc k)) < snd (undamped (Suc k))"
proof -
  have v: "0 \<le> fst (damped k)" "fst (damped k) \<le> fst (undamped k)"
    "snd (damped k) \<le> snd (undamped k)"
    using damped_below [of k] by simp_all
  show ?thesis
    using damping_arith [OF v]
    by (simp only: damped.simps undamped.simps Let_def fst_conv snd_conv) simp
qed

lemma undamped_closed_form:
  "undamped n = (0.05 * real n, 0.05 * 0.05 * (real n * (real n + 1) / 2))"
  by (induction n) (simp_all add: Let_def field_simps)

section \<open>Sample ingest\<close>

text \<open>
  C1, as the code has it. While tracking with the time of the last sample known, the step
  computes \<open>dt\<close> from the two times. When \<open>dt \<le> 0\<close> it returns at once (line 640): no
  integrator field changes, and the time of the last sample is left as it was too, since
  the assignment of line 641 comes after the return. Only the displayed raw reading is
  new. When \<open>dt > 0\<close> the time of the last sample becomes the time of this sample.
\<close>

theorem nonpositive_dt_discards_sample:
  assumes "isTracking s" and "lastTimeRef s = Some lastTime"
  shows "(real_of_int (now - lastTime) / 1000 \<le> 0 \<longrightarrow>
            on_accel s data now = s\<lparr> accel := data \<rparr> \<and>
            lastTimeRef (on_accel s data now) = Some lastTime \<and>
            headingRef (on_accel s data now) = headingRef s \<and>
            velocityRef (on_accel s data now) = velocityRef s \<and>
            positionRef (on_accel s data now) = positionRef s \<and>
            path (on_accel s data now) = path s \<and>
            totalDistanceRef (on_accel s data now) = totalDistanceRef s \<and>
            totalDistance (on_accel s data now) = totalDistance s) \<and>
         (0 < real_of_int (now - lastTime) / 1000 \<longrightarrow>
            lastTimeRef (on_accel s data now) = Some now)"
  using assms
  by (simp add: on_accel_def updateDeadReckoning_def Let_def appendIfMoved_frame)

theorem nonpositive_dt_discards_sample_witness:
  "isTracking armed \<and> lastTimeRef armed = Some 1000 \<and>
   on_accel armed zero3 900 = armed\<lparr> accel := zero3 \<rparr> \<and>
   lastTimeRef (on_accel armed zero3 900) = Some 1000 \<and>
   lastTimeRef (on_accel armed zero3 1050) = Some 1050"
proof -
  have h: "isTracking armed" "lastTimeRef armed = Some 1000"
    by (simp_all add: armed_eq)
  show ?thesis
    using h nonpositive_dt_discards_sample [OF h, of 900 zero3]
      nonpositive_dt_discards_sample [OF h, of 1050 zero3]
    by simp
qed

text \<open>
  C1 as the specification words it has the time of the last sample updated to the time of
  the sample before the test of \<open>dt\<close>. A sample stamped 900 ms that arrives after one
  stamped 1000 ms leaves the stored time at 1000.
\<close>

theorem late_sample_keeps_last_time:
  "lastTimeRef (on_accel armed zero3 900) = Some 1000 \<and>
   lastTimeRef (on_accel armed zero3 900) \<noteq> Some 900"
  by (simp add: armed_eq initialState_def on_accel_def updateDeadReckoning_def)

text \<open>
  C5: while the session is idle, an accelerometer sample replaces the displayed raw reading
  and nothing else; heading, velocity, position, trajectory and total distance are the
  fields of the unchanged rest.
\<close>

theorem idle_sample_is_display_only:
  "\<not> isTracking s \<Longrightarrow> on_accel s data now = s\<lparr> accel := data \<rparr>"
  by (simp add: on_accel_def)

theorem idle_sample_is_display_only_witness:
  "\<not> isTracking initialState \<and>
   on_accel initialState push 1000 = initialState\<lparr> accel := push \<rparr>"
proof -
  have h: "\<not> isTracking initialState"
    by (simp add: initialState_def)
  show ?thesis using h idle_sample_is_display_only [OF h] by simp
qed

section \<open>Kinematic integration\<close>

text \<open>
  C3: every integration step with \<open>dt > 0\<close> sets the velocity to
  \<open>(v + a_world * dt) * 0.98\<close> on each axis and then the position to \<open>p + v' * dt\<close>.
  The factor 0.98 is the same for every \<open>dt\<close>, and the new velocity is stored as computed,
  with no clamp. The world-frame acceleration is the bias-corrected sample rotated by the
  new heading.
\<close>

theorem kinematic_step:
  assumes "isTracking s" and "lastTimeRef s = Some lastTime" and "lastTime < now"
    and "dt = Num (real_of_int (now - lastTime) / 1000)"
    and "s' = on_accel s data now"
    and "axBody = vec_x data - vec_x (biasRef s)"
    and "ayBody = vec_y data - vec_y (biasRef s)"
    and "axWorld = axBody * Math_cos (headingRef s') - ayBody * Math_sin (headingRef s')"
    and "ayWorld = axBody * Math_sin (headingRef s') + ayBody * Math_cos (headingRef s')"
  shows "velocityRef s' = ((fst (velocityRef s) + axWorld * dt) * Num 0.98,
                           (snd (velocityRef s) + ayWorld * dt) * Num 0.98) \<and>
         positionRef s' = (fst (positionRef s) + fst (velocityRef s') * dt,
                           snd (positionRef s) + snd (velocityRef s') * dt)"
  using assms
  by (simp add: on_accel_def updateDeadReckoning_def Let_def appendIfMoved_frame)

theorem kinematic_step_witness:
  "isTracking armed \<and> lastTimeRef armed = Some 1000 \<and>
   velocityRef (on_accel armed push 1050) = (Num 0.049, Num 0) \<and>
   positionRef (on_accel armed push 1050) = (Num 0.00245, Num 0)"
proof -
  have h: "isTracking armed" "lastTimeRef armed = Some 1000" "(1000::int) < 1050"
    by (simp_all add: armed_eq)
  have hd: "headingRef (on_accel armed push 1050) = Num 0"
    by (simp add: armed_eq eval_defs wrapHeading_zero appendIfMoved_frame)
  show ?thesis
    using h kinematic_step [OF h refl refl refl refl refl refl, of push]
    by (simp add: hd) (simp add: armed_eq eval_defs)
qed

section \<open>Path sampling\<close>

text \<open>
  C4, as the code has it. With \<open>d\<close> the distance of the new position from the last
  recorded point, the point is appended and \<open>d\<close> is added to the total distance exactly
  when \<open>d > 0.005\<close>; otherwise the session is unchanged. There is no exception for the
  first point of a session. A distance of 0.004 is discarded, a distance of 0.006 is
  recorded and added.
\<close>

theorem sampler_threshold:
  assumes "d = Math_hypot (x - fst (lastPoint (path s))) (y - snd (lastPoint (path s)))"
  shows "(js_gt d (Num 0.005) \<longrightarrow>
            path (appendIfMoved s x y) = path s @ [(x, y)] \<and>
            totalDistanceRef (appendIfMoved s x y) = totalDistanceRef s + d \<and>
            totalDistance (appendIfMoved s x y) = totalDistanceRef s + d) \<and>
         (\<not> js_gt d (Num 0.005) \<longrightarrow> appendIfMoved s x y = s) \<and>
         (d = Num 0.004 \<longrightarrow> appendIfMoved s x y = s) \<and>
         (d = Num 0.006 \<longrightarrow>
            path (appendIfMoved s x y) = path s @ [(x, y)] \<and>
            totalDistanceRef (appendIfMoved s x y) = totalDistanceRef s + Num 0.006)"
  using assms by (auto simp: appendIfMoved_def Let_def)

theorem sampler_threshold_witness:
  "appendIfMoved initialState (Num 0.004) (Num 0) = initialState \<and>
   path (appendIfMoved initialState (Num 0.006) (Num 0))
     = [(Num 0, Num 0), (Num 0.006, Num 0)] \<and>
   totalDistanceRef (appendIfMoved initialState (Num 0.006) (Num 0)) = Num 0.006"
proof -
  have p: "path initialState = [origin]" "totalDistanceRef initialState = Num 0"
    by (simp_all add: initialState_def)
  have d4: "Num 0.004 = Math_hypot (Num 0.004 - fst (lastPoint (path initialState)))
                                  (Num 0 - snd (lastPoint (path initialState)))"
    by (simp add: p lastPoint_def origin_def minus_number_def hypot_axis
        del: Math_hypot.simps)
  have d6: "Num 0.006 = Math_hypot (Num 0.006 - fst (lastPoint (path initialState)))
                                  (Num 0 - snd (lastPoint (path initialState)))"
    by (simp add: p lastPoint_def origin_def minus_number_def hypot_axis
        del: Math_hypot.simps)
  show ?thesis
    using sampler_threshold [OF d4] sampler_threshold [OF d6]
    by (simp add: p origin_def)
qed

text \<open>
  C4 as the specification words it records the first point of a session whatever its
  distance. After Start, the first integration step moves the position to
  \<open>(0.00245, 0)\<close>, at distance 0.00245 from the origin: the trajectory is still the
  origin alone and no distance was added.
\<close>

theorem first_point_below_threshold_is_dropped:
  "positionRef (run initialState [Start, Accel push 1000, Accel push 1050])
     = (Num 0.00245, Num 0) \<and>
   path (run initialState [Start, Accel push 1000, Accel push 1050]) = [(Num 0, Num 0)] \<and>
   path (run initialState [Start, Accel push 1000, Accel push 1050])
     \<noteq> [(Num 0, Num 0), (Num 0.00245, Num 0)] \<and>
   totalDistanceRef (run initialState [Start, Accel push 1000, Accel push 1050]) = Num 0"
  by (simp add: eval_defs wrapHeading_zero hypot_axis del: Math_hypot.simps)

section \<open>Commands\<close>

text \<open>
  C7: Calibrate with the latest raw sample \<open>(0.2, -0.1, 9.8)\<close> on display stores that
  sample as the bias and clears the session as Reset does: the trajectory is the origin
  alone, tracking is off, distance, velocity, position and heading are zero and the time
  of the last sample is unset. The session may be in any state before.
\<close>

theorem calibrate_sets_bias_and_resets:
  assumes "accel s = Vec3 (Num 0.2) (Num (- 0.1)) (Num 9.8)"
  shows "biasRef (handleCalibrate s) = Vec3 (Num 0.2) (Num (- 0.1)) (Num 9.8) \<and>
         bias (handleCalibrate s) = Vec3 (Num 0.2) (Num (- 0.1)) (Num 9.8) \<and>
         path (handleCalibrate s) = [(Num 0, Num 0)] \<and>
         \<not> isTracking (handleCalibrate s) \<and>
         totalDistance (handleCalibrate s) = Num 0 \<and>
         totalDistanceRef (handleCalibrate s) = Num 0 \<and>
         velocityRef (handleCalibrate s) = (Num 0, Num 0) \<and>
         positionRef (handleCalibrate s) = (Num 0, Num 0) \<and>
         headingRef (handleCalibrate s) = Num 0 \<and>
         lastTimeRef (handleCalibrate s) = None \<and>
         handleCalibrate s = handleReset (s\<lparr> biasRef := accel s, bias := accel s \<rparr>)"
  using assms
  by (simp add: handleCalibrate_def handleReset_def resetState_def)

theorem calibrate_sets_bias_and_resets_witness:
  "accel (on_accel armed (Vec3 (Num 0.2) (Num (- 0.1)) (Num 9.8)) 1050)
     = Vec3 (Num 0.2) (Num (- 0.1)) (Num 9.8) \<and>
   isTracking (on_accel armed (Vec3 (Num 0.2) (Num (- 0.1)) (Num 9.8)) 1050) \<and>
   biasRef (handleCalibrate (on_accel armed (Vec3 (Num 0.2) (Num (- 0.1)) (Num 9.8)) 1050))
     = Vec3 (Num 0.2) (Num (- 0.1)) (Num 9.8) \<and>
   \<not> isTracking
       (handleCalibrate (on_accel armed (Vec3 (Num 0.2) (Num (- 0.1)) (Num 9.8)) 1050)) \<and>
   path (handleCalibrate (on_accel armed (Vec3 (Num 0.2) (Num (- 0.1)) (Num 9.8)) 1050))
     = [(Num 0, Num 0)]"
proof -
  have h: "accel (on_accel armed (Vec3 (Num 0.2) (Num (- 0.1)) (Num 9.8)) 1050)
             = Vec3 (Num 0.2) (Num (- 0.1)) (Num 9.8)"
    by (simp add: armed_eq on_accel_def updateDeadReckoning_def Let_def appendIfMoved_def)
  have t: "isTracking (on_accel armed (Vec3 (Num 0.2) (Num (- 0.1)) (Num 9.8)) 1050)"
    by (simp add: armed_eq on_accel_def updateDeadReckoning_def Let_def appendIfMoved_frame)
  show ?thesis
    using h t calibrate_sets_bias_and_resets [OF h] by blast
qed

text \<open>
  C9: Stop while tracking turns tracking off and unsets the time of the last sample;
  trajectory, total distance, velocity, position, heading, bias and the sensor readings
  keep their values.
\<close>

theorem stop_preserves_session:
  assumes "isTracking s"
  shows "\<not> isTracking (handleStop s) \<and> lastTimeRef (handleStop s) = None \<and>
         path (handleStop s) = path s \<and>
         totalDistance (handleStop s) = totalDistance s \<and>
         totalDistanceRef (handleStop s) = totalDistanceRef s \<and>
         velocityRef (handleStop s) = velocityRef s \<and>
         positionRef (handleStop s) = positionRef s \<and>
         headingRef (handleStop s) = headingRef s \<and>
         bias (handleStop s) = bias s \<and> biasRef (handleStop s) = biasRef s \<and>
         accel (handleStop s) = accel s \<and> gyro (handleStop s) = gyro s \<and>
         gyroRef (handleStop s) = gyroRef s"
  by (simp add: handleStop_def)

theorem stop_preserves_session_witness:
  "isTracking (on_accel armed push 1100) \<and>
   \<not> isTracking (handleStop (on_accel armed push 1100)) \<and>
   lastTimeRef (handleStop (on_accel armed push 1100)) = None \<and>
   path (handleStop (on_accel armed push 1100)) = path (on_accel armed push 1100) \<and>
   positionRef (handleStop (on_accel armed push 1100))
     = positionRef (on_accel armed push 1100)"
proof -
  have t: "isTracking (on_accel armed push 1100)"
    by (simp add: armed_eq on_accel_def updateDeadReckoning_def Let_def appendIfMoved_frame)
  show ?thesis
    using t stop_preserves_session [OF t] by simp
qed

section \<open>The trajectory\<close>

text \<open>
  C10: after any sequence of sensor samples and commands from the initial session, the
  trajectory is non-empty and its first point is the origin. Each single event either
  resets the trajectory to the origin alone or keeps it as a prefix (an integration step
  appends at the end, Stop and a gyroscope sample leave it untouched).
\<close>

theorem trajectory_starts_at_origin:
  "path (run initialState es) \<noteq> [] \<and>
   hd (path (run initialState es)) = (Num 0, Num 0) \<and>
   (path (apply_event (run initialState es) e) = [(Num 0, Num 0)] \<or>
    (\<exists>sfx. path (apply_event (run initialState es) e) = path (run initialState es) @ sfx))"
proof -
  have "path initialState \<noteq> [] \<and> hd (path initialState) = origin"
    by (simp add: initialState_def)
  then have "path (run initialState es) \<noteq> [] \<and> hd (path (run initialState es)) = origin"
    by (rule origin_first_run)
  then show ?thesis
    using path_step [of "run initialState es" e] by (simp add: origin_def)
qed

section \<open>Heading\<close>

text \<open>
  C2, as the code has it. From a session whose heading lies in \<open>[-\<pi>, \<pi>]\<close>, along any
  run of events in which each integration step changes the heading by at most one full
  turn, the heading lies in the closed interval \<open>[-\<pi>, \<pi>]\<close> after every event of the
  run.
\<close>

theorem heading_stays_in_closed_range:
  assumes "headingClosed (headingRef s)" and "allOneWrap s es"
  shows "headingClosed (headingRef (run s (take n es)))"
  using assms
proof (induction es arbitrary: s n)
  case Nil
  then show ?case by simp
next
  case (Cons e es)
  show ?case
  proof (cases n)
    case 0
    then show ?thesis using Cons.prems by simp
  next
    case (Suc m)
    from Cons.prems have "headingClosed (headingRef (apply_event s e))"
      by (auto intro: heading_step)
    moreover from Cons.prems have "allOneWrap (apply_event s e) es" by simp
    ultimately show ?thesis using Cons.IH Suc by simp
  qed
qed

theorem heading_stays_in_closed_range_witness:
  "headingClosed (headingRef initialState) \<and> allOneWrap initialState halfTurn \<and>
   headingClosed (headingRef (run initialState halfTurn))"
proof -
  have h: "headingClosed (headingRef initialState)"
    by (simp add: initialState_def headingClosed_zero)
  show ?thesis
    using h halfTurn_oneWrap heading_stays_in_closed_range [OF h halfTurn_oneWrap, of 4]
    by (simp add: halfTurn_def)
qed

text \<open>
  C2 as the specification words it excludes the heading \<open>-\<pi>\<close>. With yaw rate \<open>-\<pi>\<close>
  rad/s and \<open>dt\<close> one second the heading goes from 0 to \<open>-\<pi>\<close>, a change of half a turn;
  neither test of lines 647-648 is strict enough to fire, and the heading stays \<open>-\<pi>\<close>.
\<close>

theorem heading_reaches_minus_pi:
  "allOneWrap initialState halfTurn \<and>
   headingRef (run initialState halfTurn) = Num (- pi) \<and>
   \<not> headingHalfOpen (headingRef (run initialState halfTurn))"
  by (simp add: halfTurn_oneWrap halfTurn_heading headingHalfOpen_def)

section \<open>Scenario B\<close>

text \<open>
  C6: from the freshly started session, under constant body-frame acceleration \<open>(1, 0)\<close>
  with zero yaw rate and zero bias and 50 ms between samples, every integration step
  strictly increases x, leaves y at 0, and ends at an x strictly below the undamped
  recurrence. This holds for step \<open>k + 1\<close> of any number of steps, so for each of the
  first 20. The undamped position after \<open>n\<close> steps is \<open>0.05\<^sup>2 * n * (n + 1) / 2\<close>.
\<close>

theorem scenario_B_damped_below_undamped:
  "js_lt (fst (positionRef (scenarioB t0 k))) (fst (positionRef (scenarioB t0 (Suc k)))) \<and>
   snd (positionRef (scenarioB t0 (Suc k))) = Num 0 \<and>
   js_lt (fst (positionRef (scenarioB t0 (Suc k)))) (Num (snd (undamped (Suc k)))) \<and>
   snd (undamped (Suc k)) = 0.05 * 0.05 * (real (Suc k) * (real (Suc k) + 1) / 2)"
  using cruise_run [of t0 k] cruise_run [of t0 "Suc k"] damped_step [of k]
    undamped_closed_form [of "Suc k"]
  by (simp add: cruising_def js_lt_def del: damped.simps undamped.simps)

section \<open>Non-finite input\<close>

text \<open>
  C8, as the code has it. In an integration step, a non-finite x or y component of the
  accelerometer sample makes both velocity components and both position components
  non-finite, and an infinite cached yaw rate makes the heading non-finite and velocity
  and position NaN: nothing detects or corrects them. A NaN cached yaw rate is replaced
  by 0 by \<^verbatim>\<open>gyroRef.current.z || 0\<close> (line 644): the step is the one taken with yaw rate 0.
\<close>

theorem nonfinite_input_propagates:
  assumes "isTracking s" and "lastTimeRef s = Some lastTime" and "lastTime < now"
    and "s' = on_accel s data now"
  shows "(\<not> isFinite (vec_x data) \<or> \<not> isFinite (vec_y data) \<longrightarrow>
            \<not> isFinite (fst (velocityRef s')) \<and> \<not> isFinite (snd (velocityRef s')) \<and>
            \<not> isFinite (fst (positionRef s')) \<and> \<not> isFinite (snd (positionRef s'))) \<and>
         (vec_z (gyroRef s) = PosInf \<or> vec_z (gyroRef s) = NegInf \<longrightarrow>
            \<not> isFinite (headingRef s') \<and>
            velocityRef s' = (NaN, NaN) \<and> positionRef s' = (NaN, NaN)) \<and>
         (vec_z (gyroRef s) = NaN \<longrightarrow>
            s' = (on_accel
                    (s\<lparr> gyroRef := Vec3 (vec_x (gyroRef s)) (vec_y (gyroRef s)) (Num 0) \<rparr>)
                    data now)\<lparr> gyroRef := gyroRef s \<rparr>)"
proof -
  let ?dt = "real_of_int (now - lastTime) / 1000"
  have dt: "0 < ?dt" using assms(3) by simp
  have A: "\<not> isFinite (fst (velocityRef s')) \<and> \<not> isFinite (snd (velocityRef s')) \<and>
           \<not> isFinite (fst (positionRef s')) \<and> \<not> isFinite (snd (positionRef s'))"
    if "\<not> isFinite (vec_x data) \<or> \<not> isFinite (vec_y data)"
    using that assms dt
    by (auto simp: on_accel_def updateDeadReckoning_def Let_def appendIfMoved_frame
        intro!: nonfinite_plus nonfinite_minus nonfinite_times)
  have B: "\<not> isFinite (headingRef s') \<and>
           velocityRef s' = (NaN, NaN) \<and> positionRef s' = (NaN, NaN)"
    if "vec_z (gyroRef s) = PosInf \<or> vec_z (gyroRef s) = NegInf"
  proof -
    have "\<not> isFinite (js_or (vec_z (gyroRef s)) (Num 0) * Num ?dt)"
      using that by (auto simp: js_or_def intro!: nonfinite_times)
    then have h: "\<not> isFinite
        (wrapHeading (headingRef s + js_or (vec_z (gyroRef s)) (Num 0) * Num ?dt))"
      by (intro nonfinite_wrapHeading nonfinite_plus) simp
    show ?thesis
      using assms dt h
      by (simp add: on_accel_def updateDeadReckoning_def Let_def appendIfMoved_frame
          nonfinite_cos nonfinite_sin)
  qed
  have C: "s' = (on_accel
                   (s\<lparr> gyroRef := Vec3 (vec_x (gyroRef s)) (vec_y (gyroRef s)) (Num 0) \<rparr>)
                   data now)\<lparr> gyroRef := gyroRef s \<rparr>"
    if "vec_z (gyroRef s) = NaN"
    using that assms dt
    by (simp add: on_accel_def updateDeadReckoning_def Let_def appendIfMoved_def js_or_def)
  show ?thesis using A B C by blast
qed

theorem nonfinite_input_propagates_witness:
  "isTracking armed \<and> lastTimeRef armed = Some 1000 \<and>
   \<not> isFinite (fst (positionRef (on_accel armed (Vec3 NaN (Num 0) (Num 0)) 1050))) \<and>
   \<not> isFinite (headingRef (on_accel (spinning PosInf) push 1050)) \<and>
   positionRef (on_accel (spinning PosInf) push 1050) = (NaN, NaN) \<and>
   on_accel (spinning NaN) push 1050
     = (on_accel ((spinning NaN)\<lparr> gyroRef := Vec3 (Num 0) (Num 0) (Num 0) \<rparr>) push 1050)
         \<lparr> gyroRef := gyroRef (spinning NaN) \<rparr>"
proof -
  have a: "isTracking armed" "lastTimeRef armed = Some 1000" "(1000::int) < 1050"
    by (simp_all add: armed_eq)
  have p: "isTracking (spinning PosInf)" "lastTimeRef (spinning PosInf) = Some 1000"
    "(1000::int) < 1050"
    by (simp_all add: spinning_eq)
  have n: "isTracking (spinning NaN)" "lastTimeRef (spinning NaN) = Some 1000"
    "(1000::int) < 1050"
    by (simp_all add: spinning_eq)
  have gp: "vec_z (gyroRef (spinning PosInf)) = PosInf"
    by (simp add: spinning_eq)
  have gn: "vec_z (gyroRef (spinning NaN)) = NaN"
    "vec_x (gyroRef (spinning NaN)) = Num 0" "vec_y (gyroRef (spinning NaN)) = Num 0"
    by (simp_all add: spinning_eq)
  have w1: "\<not> isFinite (fst (positionRef (on_accel armed (Vec3 NaN (Num 0) (Num 0)) 1050)))"
    using nonfinite_input_propagates [OF a refl, of "Vec3 NaN (Num 0) (Num 0)"] by simp
  have w2: "\<not> isFinite (headingRef (on_accel (spinning PosInf) push 1050)) \<and>
            positionRef (on_accel (spinning PosInf) push 1050) = (NaN, NaN)"
    using nonfinite_input_propagates [OF p refl, of push] gp by blast
  have w3: "on_accel (spinning NaN) push 1050
     = (on_accel ((spinning NaN)\<lparr> gyroRef := Vec3 (Num 0) (Num 0) (Num 0) \<rparr>) push 1050)
         \<lparr> gyroRef := gyroRef (spinning NaN) \<rparr>"
    using nonfinite_input_propagates [OF n refl, of push] gn(1)
    unfolding gn(2,3) by blast
  show ?thesis using a(1,2) w1 w2 w3 by blast
qed

text \<open>
  C8 as the specification words it has every non-finite component propagate. A gyroscope
  sample with a NaN z component is cached, and the next integration step keeps heading,
  velocity and position finite: the heading stays 0.
\<close>

theorem nan_yaw_rate_is_read_as_zero:
  "vec_z (gyroRef (spinning NaN)) = NaN \<and>
   headingRef (on_accel (spinning NaN) push 1050) = Num 0 \<and>
   velocityRef (on_accel (spinning NaN) push 1050) = (Num 0.049, Num 0) \<and>
   positionRef (on_accel (spinning NaN) push 1050) = (Num 0.00245, Num 0) \<and>
   isFinite (headingRef (on_accel (spinning NaN) push 1050)) \<and>
   isFinite (fst (positionRef (on_accel (spinning NaN) push 1050))) \<and>
   isFinite (snd (positionRef (on_accel (spinning NaN) push 1050)))"
  by (simp add: spinning_eq eval_defs wrapHeading_zero appendIfMoved_frame hypot_axis
      del: Math_hypot.simps)

end
